theory Spec2Isabelle
  imports Main "HOL-Library.Word"
begin

section \<open>The InvoiceRegistry contract (contracts/InvoiceRegistry.sol)\<close>

text \<open>
  Solidity value types are machine words: \<open>address\<close> has 160 bits, \<open>uint256\<close> and
  \<open>bytes32\<close> have 256, \<open>uint64\<close> has 64 and \<open>uint8\<close> has 8. Comparison of words is
  unsigned. The contract is compiled with Solidity 0.8 (\<open>pragma solidity ^0.8.0\<close>,
  compiler 0.8.28 in the Hardhat configuration), whose \<open>+\<close> and \<open>++\<close> revert with a
  panic instead of wrapping around; the model writes that check out.
\<close>

type_synonym address = "160 word"
type_synonym uint256 = "256 word"
type_synonym uint64 = "64 word"
type_synonym uint8 = "8 word"
type_synonym bytes32 = "256 word"
type_synonym bytes = "8 word list"

record Invoice =
  merchant :: address
  payer :: address
  amount :: uint256
  expiresAt :: uint64
  status :: uint8 \<comment> \<open>0: Pending, 1: Paid, 2: Cancelled\<close>
  metaHash :: bytes32

text \<open>
  The storage of the contract. A Solidity mapping is total: a key that was never written
  reads as the all-zero value.
\<close>

record registry =
  invoices :: "uint256 \<Rightarrow> Invoice"
  nextInvoiceId :: uint256
  DOMAIN_SEPARATOR :: bytes32
  nonces :: "address \<Rightarrow> uint256"

definition zero_Invoice :: Invoice where
  "zero_Invoice =
     \<lparr>merchant = 0, payer = 0, amount = 0, expiresAt = 0, status = 0, metaHash = 0\<rparr>"

text \<open>
  The primitives of the machine that the contract calls: the hash function and the
  signature-recovery precompile. They are parameters of the model.
\<close>

record evm =
  keccak256 :: "bytes \<Rightarrow> bytes32"
  ecrecover :: "bytes32 \<Rightarrow> uint8 \<Rightarrow> bytes32 \<Rightarrow> bytes32 \<Rightarrow> address"

text \<open>
  What one transaction brings with it: the caller, the block's timestamp, and the answer
  of \<open>IBank(BANK_ADDRESS).transferFrom\<close>, the external transfer capability. The bank is
  a precompile outside the contract; its answer depends on balances and approvals that
  the contract does not see, so every transaction carries its own. The bank does not call
  back into the contract, and a bank call that itself reverts is not modelled: it would
  revert the whole transaction as a failed \<open>require\<close> does.
\<close>

record ctx =
  msg_sender :: address
  block_timestamp :: uint256
  transferFrom :: "address \<Rightarrow> address \<Rightarrow> uint256 \<Rightarrow> bool"

datatype event =
    InvoiceCreated uint256 address address uint256 uint64 bytes32 bytes
  | InvoicePaid uint256 address address uint256
  | InvoiceCancelled uint256

text \<open>
  What a call does to the outside, in program order: the events it emits and the external
  calls it makes. An external call is recorded with the storage as it stands at the
  moment of the call, which is what the callee could observe.
\<close>

datatype action =
    Emitted event
  | Called_transferFrom registry address address uint256

text \<open>The reasons a call reverts: one per \<open>require\<close> message, and the arithmetic panic.\<close>

datatype revert =
    Not_pending
  | Expired
  | Wrong_payer
  | Transfer_failed
  | Not_merchant
  | Cannot_cancel
  | Invalid_signature
  | Panic_overflow

text \<open>
  A function body returns either the reason of its revert or its return value, the
  storage it leaves and its actions.
\<close>

type_synonym 'a outcome = "revert + ('a \<times> registry \<times> action list)"

subsection \<open>Encodings\<close>

primrec be_bytes :: "nat \<Rightarrow> nat \<Rightarrow> bytes" where
  "be_bytes 0 n = []"
| "be_bytes (Suc k) n = be_bytes k (n div 256) @ [of_nat (n mod 256)]"

definition bytes32_of :: "bytes32 \<Rightarrow> bytes" where
  "bytes32_of w = be_bytes 32 (unat w)"

text \<open>\<open>abi.encode\<close> of static values: each one padded to a 32-byte big-endian slot.\<close>

definition abi_encode :: "uint256 list \<Rightarrow> bytes" where
  "abi_encode ws = concat (map bytes32_of ws)"

text \<open>\<open>bytes(s)\<close> of a string literal of the source (ASCII).\<close>

definition bytes_of_string :: "string \<Rightarrow> bytes" where
  "bytes_of_string s = map (\<lambda>c. of_nat (of_char c)) s"

definition INVOICE_TYPEHASH :: "evm \<Rightarrow> bytes32" where
  "INVOICE_TYPEHASH E = keccak256 E (bytes_of_string
     ''Invoice(address merchant,address payer,uint256 amount,uint64 expiresAt,bytes32 metaHash,uint256 nonce)'')"

subsection \<open>The constructor\<close>

definition constructor :: "evm \<Rightarrow> uint256 \<Rightarrow> address \<Rightarrow> registry" where
  "constructor E chainId this =
     \<lparr>invoices = (\<lambda>_. zero_Invoice),
      nextInvoiceId = 0,
      DOMAIN_SEPARATOR = keccak256 E (abi_encode
        [keccak256 E (bytes_of_string
           ''EIP712Domain(string name,string version,uint256 chainId,address verifyingContract)''),
         keccak256 E (bytes_of_string ''StablePay''),
         keccak256 E (bytes_of_string ''1''),
         chainId,
         ucast this]),
      nonces = (\<lambda>_. 0)\<rparr>"

subsection \<open>createInvoice\<close>

definition createInvoice ::
  "evm \<Rightarrow> ctx \<Rightarrow> address \<Rightarrow> uint256 \<Rightarrow> uint64 \<Rightarrow> bytes \<Rightarrow> registry \<Rightarrow> uint256 outcome" where
  "createInvoice E c p_payer p_amount p_expiresAt p_metadata s =
     (if nextInvoiceId s = - 1 then Inl Panic_overflow
      else
        let invoiceId = nextInvoiceId s;
            s1 = s\<lparr>nextInvoiceId := nextInvoiceId s + 1\<rparr>;
            mh = keccak256 E p_metadata;
            s2 = s1\<lparr>invoices := (invoices s1)(invoiceId :=
                   \<lparr>merchant = msg_sender c, payer = p_payer, amount = p_amount,
                    expiresAt = p_expiresAt, status = 0, metaHash = mh\<rparr>)\<rparr>
        in Inr (invoiceId, s2,
             [Emitted (InvoiceCreated invoiceId (msg_sender c) p_payer p_amount
                 p_expiresAt mh p_metadata)]))"

subsection \<open>pay\<close>

definition pay :: "ctx \<Rightarrow> uint256 \<Rightarrow> registry \<Rightarrow> unit outcome" where
  "pay c p_invoiceId s =
     (let invoice = invoices s p_invoiceId in
      if status invoice \<noteq> 0 then Inl Not_pending
      else if \<not> block_timestamp c \<le> ucast (expiresAt invoice) then Inl Expired
      else if payer invoice \<noteq> 0 \<and> msg_sender c \<noteq> payer invoice then Inl Wrong_payer
      else
        let s1 = s\<lparr>invoices := (invoices s)(p_invoiceId := invoice\<lparr>status := 1\<rparr>)\<rparr>;
            invoice1 = invoices s1 p_invoiceId
        in if \<not> transferFrom c (msg_sender c) (merchant invoice1) (amount invoice1)
           then Inl Transfer_failed
           else Inr ((), s1,
             [Called_transferFrom s1 (msg_sender c) (merchant invoice1) (amount invoice1),
              Emitted (InvoicePaid p_invoiceId (msg_sender c) (merchant invoice1)
                 (amount invoice1))]))"

subsection \<open>cancelInvoice\<close>

definition cancelInvoice :: "ctx \<Rightarrow> uint256 \<Rightarrow> registry \<Rightarrow> unit outcome" where
  "cancelInvoice c p_invoiceId s =
     (let invoice = invoices s p_invoiceId in
      if msg_sender c \<noteq> merchant invoice then Inl Not_merchant
      else if status invoice \<noteq> 0 then Inl Cannot_cancel
      else
        let s1 = s\<lparr>invoices := (invoices s)(p_invoiceId := invoice\<lparr>status := 2\<rparr>)\<rparr>
        in Inr ((), s1, [Emitted (InvoiceCancelled p_invoiceId)]))"

subsection \<open>The gasless path\<close>

definition digest ::
  "evm \<Rightarrow> registry \<Rightarrow> address \<Rightarrow> address \<Rightarrow> uint256 \<Rightarrow> uint64 \<Rightarrow> bytes32 \<Rightarrow> uint256
     \<Rightarrow> bytes32" where
  "digest E s p_merchant p_payer p_amount p_expiresAt p_metaHash p_nonce =
     keccak256 E ([0x19, 0x01] @ bytes32_of (DOMAIN_SEPARATOR s) @
       bytes32_of (keccak256 E (abi_encode
         [INVOICE_TYPEHASH E, ucast p_merchant, ucast p_payer, p_amount,
          ucast p_expiresAt, p_metaHash, p_nonce])))"

definition verifySignature ::
  "evm \<Rightarrow> registry \<Rightarrow> address \<Rightarrow> address \<Rightarrow> uint256 \<Rightarrow> uint64 \<Rightarrow> bytes32 \<Rightarrow> uint256
     \<Rightarrow> uint8 \<Rightarrow> bytes32 \<Rightarrow> bytes32 \<Rightarrow> bool" where
  "verifySignature E s p_merchant p_payer p_amount p_expiresAt p_metaHash p_nonce p_v p_r p_s =
     (let recovered =
        ecrecover E (digest E s p_merchant p_payer p_amount p_expiresAt p_metaHash p_nonce)
          p_v p_r p_s
      in recovered \<noteq> 0 \<and> recovered = p_merchant)"

definition createAndPayInvoice ::
  "evm \<Rightarrow> ctx \<Rightarrow> address \<Rightarrow> address \<Rightarrow> uint256 \<Rightarrow> uint64 \<Rightarrow> bytes
     \<Rightarrow> uint8 \<Rightarrow> bytes32 \<Rightarrow> bytes32 \<Rightarrow> registry \<Rightarrow> unit outcome" where
  "createAndPayInvoice E c p_merchant p_payer p_amount p_expiresAt p_metadata p_v p_r p_s s =
     (if \<not> block_timestamp c \<le> ucast p_expiresAt then Inl Expired
      else if p_payer \<noteq> 0 \<and> msg_sender c \<noteq> p_payer then Inl Wrong_payer
      else
        let mh = keccak256 E p_metadata;
            currentNonce = nonces s p_merchant
        in if \<not> verifySignature E s p_merchant p_payer p_amount p_expiresAt mh
                  currentNonce p_v p_r p_s
           then Inl Invalid_signature
           else if currentNonce = - 1 then Inl Panic_overflow
           else
             let s1 = s\<lparr>nonces := (nonces s)(p_merchant := currentNonce + 1)\<rparr>
             in if nextInvoiceId s1 = - 1 then Inl Panic_overflow
                else
                  let invoiceId = nextInvoiceId s1;
                      s2 = s1\<lparr>nextInvoiceId := nextInvoiceId s1 + 1\<rparr>;
                      s3 = s2\<lparr>invoices := (invoices s2)(invoiceId :=
                             \<lparr>merchant = p_merchant, payer = p_payer, amount = p_amount,
                              expiresAt = p_expiresAt, status = 1, metaHash = mh\<rparr>)\<rparr>
                  in if \<not> transferFrom c (msg_sender c) p_merchant p_amount
                     then Inl Transfer_failed
                     else Inr ((), s3,
                       [Emitted (InvoiceCreated invoiceId p_merchant p_payer p_amount
                           p_expiresAt mh p_metadata),
                        Called_transferFrom s3 (msg_sender c) p_merchant p_amount,
                        Emitted (InvoicePaid invoiceId (msg_sender c) p_merchant p_amount)]))"

subsection \<open>getInvoice\<close>

definition getInvoice ::
  "registry \<Rightarrow> uint256 \<Rightarrow> address \<times> address \<times> uint256 \<times> uint64 \<times> uint8 \<times> bytes32" where
  "getInvoice s p_invoiceId =
     (let i = invoices s p_invoiceId
      in (merchant i, payer i, amount i, expiresAt i, status i, metaHash i))"

subsection \<open>Transactions\<close>

text \<open>
  A transaction that reverts leaves the storage as it was before the call and emits
  nothing; one that returns commits the storage its body left.
\<close>

definition transact :: "(registry \<Rightarrow> 'a outcome) \<Rightarrow> registry \<Rightarrow> registry \<times> (revert + 'a \<times> action list)" where
  "transact f s =
     (case f s of
        Inl e \<Rightarrow> (s, Inl e)
      | Inr (r, s', acts) \<Rightarrow> (s', Inr (r, acts)))"

text \<open>The state-changing entry points of the contract, as calls with their arguments.\<close>

datatype call =
    CreateInvoice address uint256 uint64 bytes
  | Pay uint256
  | CancelInvoice uint256
  | CreateAndPayInvoice address address uint256 uint64 bytes uint8 bytes32 bytes32

fun exec :: "evm \<Rightarrow> ctx \<Rightarrow> call \<Rightarrow> registry \<Rightarrow> unit outcome" where
  "exec E c (CreateInvoice p a e m) s =
     (case createInvoice E c p a e m s of
        Inl err \<Rightarrow> Inl err
      | Inr (_, s', acts) \<Rightarrow> Inr ((), s', acts))"
| "exec E c (Pay i) s = pay c i s"
| "exec E c (CancelInvoice i) s = cancelInvoice c i s"
| "exec E c (CreateAndPayInvoice m p a e md v r sg) s =
     createAndPayInvoice E c m p a e md v r sg s"

definition step :: "evm \<Rightarrow> ctx \<times> call \<Rightarrow> registry \<Rightarrow> registry" where
  "step E tx s = fst (transact (exec E (fst tx) (snd tx)) s)"

fun run :: "evm \<Rightarrow> (ctx \<times> call) list \<Rightarrow> registry \<Rightarrow> registry" where
  "run E [] s = s"
| "run E (tx # txs) s = run E txs (step E tx s)"

text \<open>What the caller of a body sees of its outcome: the revert reason or the return value.\<close>

definition returned :: "'a outcome \<Rightarrow> revert + 'a" where
  "returned out = (case out of Inl e \<Rightarrow> Inl e | Inr (r, _, _) \<Rightarrow> Inr r)"

text \<open>The actions of a transaction: those of its body if it returns, none if it reverts.\<close>

definition actions_of :: "evm \<Rightarrow> ctx \<times> call \<Rightarrow> registry \<Rightarrow> action list" where
  "actions_of E tx s =
     (case snd (transact (exec E (fst tx) (snd tx)) s) of
        Inl _ \<Rightarrow> []
      | Inr (_, acts) \<Rightarrow> acts)"

subsection \<open>Observing a run\<close>



text \<open>
  The nonce values that a merchant's authorizations consumed along a run, in order: a
  gasless call that returns has verified the signature against the nonce stored for its
  merchant at that moment.
\<close>

fun consumed_nonce :: "evm \<Rightarrow> ctx \<times> call \<Rightarrow> registry \<Rightarrow> address \<Rightarrow> uint256 list" where
  "consumed_nonce E (c, CreateAndPayInvoice m p a e md v r sg) s who =
     (case createAndPayInvoice E c m p a e md v r sg s of
        Inl _ \<Rightarrow> []
      | Inr _ \<Rightarrow> if m = who then [nonces s m] else [])"
| "consumed_nonce E (c, _) s who = []"

fun consumed_nonces :: "evm \<Rightarrow> (ctx \<times> call) list \<Rightarrow> registry \<Rightarrow> address \<Rightarrow> uint256 list" where
  "consumed_nonces E [] s who = []"
| "consumed_nonces E (tx # txs) s who =
     consumed_nonce E tx s who @ consumed_nonces E txs (step E tx s) who"

section \<open>The dashboard's view of an invoice\<close>

text \<open>
  \<open>types.ts\<close> declares the numeric enum \<open>InvoiceStatus\<close>; at run time a member is its
  number, and a status field holds any number.
\<close>

datatype InvoiceStatus = NONE | CREATED | PAID | CANCELLED

primrec InvoiceStatus_number :: "InvoiceStatus \<Rightarrow> int" where
  "InvoiceStatus_number NONE = 0"
| "InvoiceStatus_number CREATED = 1"
| "InvoiceStatus_number PAID = 2"
| "InvoiceStatus_number CANCELLED = 3"

text \<open>
  The object that \<open>getMerchantInvoices\<close> (services/web3Service.ts) builds from the
  answer of \<open>getInvoice\<close>. The fields \<open>id\<close>, \<open>amount\<close>, \<open>expiresAt\<close> and
  \<open>description\<close> are formatted for display and are left out here; \<open>status\<close> is
  \<open>Number(currentData.status)\<close>.
\<close>

record view_Invoice =
  view_merchant :: address
  view_payer :: address
  view_status :: int
  view_metaHash :: bytes32

definition getMerchantInvoice :: "registry \<Rightarrow> uint256 \<Rightarrow> view_Invoice" where
  "getMerchantInvoice s invoiceId =
     (case getInvoice s invoiceId of
        (m, p, a, e, st, mh) \<Rightarrow>
          \<lparr>view_merchant = m, view_payer = p, view_status = uint st, view_metaHash = mh\<rparr>)"

text \<open>The status badges that the dashboard (components/MerchantDashboard.tsx) renders.\<close>

definition status_badges :: "view_Invoice \<Rightarrow> string list" where
  "status_badges vi =
     (if view_status vi = InvoiceStatus_number PAID then [''PAID''] else []) @
     (if view_status vi = InvoiceStatus_number CREATED then [''PENDING''] else []) @
     (if view_status vi = InvoiceStatus_number CANCELLED then [''CANCELLED''] else [])"

section \<open>A small concrete setting\<close>

text \<open>
  A toy machine to evaluate the contract on: the hash of a byte string is its last byte,
  and a signature \<open>(v, r, s)\<close> recovers the identity \<open>s\<close> from the digest \<open>r\<close> and
  nothing from any other digest.
\<close>

definition demo_evm :: evm where
  "demo_evm =
     \<lparr>keccak256 = (\<lambda>bs. if bs = [] then 0 else ucast (last bs)),
      ecrecover = (\<lambda>d v r s. if d = r then ucast s else 0)\<rparr>"

text \<open>
  A second toy machine, whose hash tells nonces apart: the hash of a byte string is the
  number it spells in big-endian, cut to 256 bits (so the hash of an encoding is its last
  32-byte slot). Signatures are as before.
\<close>

definition from_be :: "bytes \<Rightarrow> nat" where
  "from_be bs = foldl (\<lambda>acc b. acc * 256 + unat b) 0 bs"

definition demo_evm2 :: evm where
  "demo_evm2 =
     \<lparr>keccak256 = (\<lambda>bs. of_nat (from_be bs)),
      ecrecover = (\<lambda>d v r s. if d = r then ucast s else 0)\<rparr>"

definition demo_ctx :: "address \<Rightarrow> uint256 \<Rightarrow> bool \<Rightarrow> ctx" where
  "demo_ctx who now ok =
     \<lparr>msg_sender = who, block_timestamp = now, transferFrom = (\<lambda>_ _ _. ok)\<rparr>"

text \<open>
  A fresh registry, and the registry after merchant 7 has created invoice 0: open to any
  payer, amount 100, expiring at time 50.
\<close>

definition demo_init :: registry where
  "demo_init = constructor demo_evm 2201 4096"

definition demo_registry :: registry where
  "demo_registry = step demo_evm (demo_ctx 7 10 True, CreateInvoice 0 100 50 []) demo_init"

section \<open>Basic facts\<close>

lemma unat_plus1: "w \<noteq> - 1 \<Longrightarrow> unat (w + 1) = Suc (unat w)"
  for w :: "'a::len word"
  using unatSuc [of w] max_word_wrap [of w] by (auto simp: add.commute)

lemma demo_ctx_simps:
  "msg_sender (demo_ctx who now ok) = who"
  "block_timestamp (demo_ctx who now ok) = now"
  "transferFrom (demo_ctx who now ok) x y z = ok"
  by (simp_all add: demo_ctx_def)

lemma demo_init_simps:
  "nextInvoiceId demo_init = 0"
  "invoices demo_init i = zero_Invoice"
  "nonces demo_init m = 0"
  "DOMAIN_SEPARATOR demo_init = 0"
  apply (simp_all add: demo_init_def constructor_def)
  apply code_simp
  done

lemma demo_registry_simps:
  "nextInvoiceId demo_registry = 1"
  "invoices demo_registry 0 =
     \<lparr>merchant = 7, payer = 0, amount = 100, expiresAt = 50, status = 0, metaHash = 0\<rparr>"
  "invoices demo_registry 1 = zero_Invoice"
  "nonces demo_registry m = 0"
  "DOMAIN_SEPARATOR demo_registry = 0"
  by (simp_all add: demo_registry_def step_def transact_def createInvoice_def demo_init_simps
      demo_ctx_def demo_evm_def Let_def)

text \<open>In the toy machine, \<open>(27, 0, 7)\<close> is merchant 7's signature over nonce 0.\<close>

lemma demo_verify:
  "verifySignature demo_evm demo_registry 7 0 100 50 (keccak256 demo_evm [])
     (nonces demo_registry 7) 27 0 7"
  by code_simp

lemma demo_gasless_ok:
  "returned (createAndPayInvoice demo_evm (demo_ctx 9 10 True) 7 0 100 50 [] 27 0 7 demo_registry)
      = Inr ()"
  by code_simp

text \<open>In the second toy machine the digest of an authorization is its nonce.\<close>

lemma foldl_be_append:
  "foldl (\<lambda>acc b. acc * 256 + unat b) k (bs :: bytes)
     = k * 256 ^ length bs + foldl (\<lambda>acc b. acc * 256 + unat b) 0 bs"
proof (induction bs arbitrary: k rule: rev_induct)
  case Nil
  then show ?case by simp
next
  case (snoc b bs)
  show ?case by (simp add: snoc.IH [of k] add_mult_distrib)
qed

lemma from_be_append: "from_be (xs @ ys) = from_be xs * 256 ^ length ys + from_be ys"
  unfolding from_be_def foldl_append by (rule foldl_be_append)

lemma length_be_bytes: "length (be_bytes k n) = k"
  by (induction k arbitrary: n) simp_all

lemma from_be_be_bytes: "from_be (be_bytes k n) = n mod 256 ^ k"
proof (induction k arbitrary: n)
  case 0
  then show ?case by (simp add: from_be_def)
next
  case (Suc k)
  have "from_be (be_bytes (Suc k) n) = (n div 256 mod 256 ^ k) * 256 + n mod 256"
    by (simp add: from_be_append Suc.IH) (simp add: from_be_def unat_of_nat)
  also have "\<dots> = n mod 256 ^ Suc k"
    by (simp add: mod_mult2_eq mult.commute)
  finally show ?case .
qed

lemma from_be_last_slot: "(of_nat (from_be (xs @ bytes32_of w)) :: 256 word) = w"
proof -
  have big: "(256 :: nat) ^ 32 = 2 ^ 256" by simp
  have "from_be (bytes32_of w) = unat w"
    using unsigned_less [of w, where ?'a = nat]
    by (simp add: bytes32_of_def from_be_be_bytes big)
  then have "from_be (xs @ bytes32_of w) = from_be xs * 2 ^ 256 + unat w"
    by (simp add: from_be_append bytes32_of_def length_be_bytes)
  moreover have "(of_nat (from_be xs * 2 ^ 256 + unat w) :: 256 word) = of_nat (unat w)"
    unfolding word_of_nat_eq_iff take_bit_eq_mod by simp
  ultimately show ?thesis by simp
qed

lemma keccak2_last_slot: "keccak256 demo_evm2 (xs @ bytes32_of w) = w"
  by (simp add: demo_evm2_def from_be_last_slot)

lemma demo2_digest: "digest demo_evm2 s m p a e mh n = n"
proof -
  have "abi_encode [x1, x2, x3, x4, x5, x6, n]
      = (bytes32_of x1 @ bytes32_of x2 @ bytes32_of x3 @ bytes32_of x4 @ bytes32_of x5
          @ bytes32_of x6) @ bytes32_of n" for x1 x2 x3 x4 x5 x6
    by (simp add: abi_encode_def)
  then have inner: "keccak256 demo_evm2 (abi_encode [x1, x2, x3, x4, x5, x6, n]) = n"
    for x1 x2 x3 x4 x5 x6
    by (simp only: keccak2_last_slot)
  have "digest demo_evm2 s m p a e mh n
      = keccak256 demo_evm2 (([0x19, 0x01] @ bytes32_of (DOMAIN_SEPARATOR s)) @ bytes32_of n)"
    by (simp add: digest_def inner)
  then show ?thesis
    by (simp only: keccak2_last_slot)
qed

lemma demo2_simps:
  "ecrecover demo_evm2 d v r s = (if d = r then ucast s else 0)"
  "keccak256 demo_evm2 [] = 0"
  by (simp_all add: demo_evm2_def from_be_def)

lemma demo2_gasless_ok:
  "returned (createAndPayInvoice demo_evm2 (demo_ctx 9 10 True) 7 0 100 50 [] 27 0 7
      demo_registry) = Inr ()"
  by (simp add: createAndPayInvoice_def verifySignature_def demo2_digest demo2_simps
      returned_def demo_registry_simps demo_ctx_simps Let_def)

lemma demo2_later_nonces:
  "\<forall>n. unat (nonces demo_registry 7) < unat n
     \<longrightarrow> ecrecover demo_evm2 (digest demo_evm2 demo_registry 7 0 100 50
           (keccak256 demo_evm2 []) n) 27 0 7 \<noteq> 7"
  by (auto simp: demo2_digest demo_registry_simps demo2_simps)

section \<open>One transaction, and runs of transactions\<close>

lemmas body_defs = createInvoice_def pay_def cancelInvoice_def createAndPayInvoice_def Let_def

lemma step_nonces_consumed:
  "map unat (consumed_nonce E tx s who) = [unat (nonces s who)..<unat (nonces (step E tx s) who)]"
proof (cases tx)
  case (Pair c cl)
  then show ?thesis
    by (cases cl) (auto simp: step_def transact_def body_defs unat_plus1 split: sum.splits if_splits)
qed

lemma step_nonces_mono: "unat (nonces s who) \<le> unat (nonces (step E tx s) who)"
proof (cases tx)
  case (Pair c cl)
  then show ?thesis
    by (cases cl) (auto simp: step_def transact_def body_defs unat_plus1 split: sum.splits if_splits)
qed

lemma run_nonces_mono: "unat (nonces s who) \<le> unat (nonces (run E txs s) who)"
proof (induction txs arbitrary: s)
  case Nil
  then show ?case by simp
next
  case (Cons tx txs)
  from step_nonces_mono [of s who E tx] Cons.IH [of "step E tx s"]
  show ?case by simp
qed


lemma step_next_mono: "unat (nextInvoiceId s) \<le> unat (nextInvoiceId (step E tx s))"
proof (cases tx)
  case (Pair c cl)
  then show ?thesis
    by (cases cl) (auto simp: step_def transact_def body_defs unat_plus1 split: sum.splits if_splits)
qed


lemma upt_append_le: "a \<le> b \<Longrightarrow> b \<le> c \<Longrightarrow> [a..<b] @ [b..<c] = [a..<c]"
  using upt_add_eq_append [of a b "c - b"] by simp

lemma run_nonces_consumed:
  "map unat (consumed_nonces E txs s who) = [unat (nonces s who)..<unat (nonces (run E txs s) who)]"
proof (induction txs arbitrary: s)
  case Nil
  then show ?case by simp
next
  case (Cons tx txs)
  have "map unat (consumed_nonces E (tx # txs) s who)
          = [unat (nonces s who)..<unat (nonces (step E tx s) who)]
            @ [unat (nonces (step E tx s) who)..<unat (nonces (run E txs (step E tx s)) who)]"
    by (simp add: step_nonces_consumed Cons.IH)
  also have "\<dots> = [unat (nonces s who)..<unat (nonces (run E txs (step E tx s)) who)]"
    by (rule upt_append_le) (rule step_nonces_mono, rule run_nonces_mono)
  finally show ?case by simp
qed


lemma step_reverted: "exec E (fst tx) (snd tx) s = Inl err \<Longrightarrow> step E tx s = s"
  by (simp add: step_def transact_def)

lemma step_gasless_nonces:
  assumes "createAndPayInvoice E c m p a e md v r sg s = Inr x"
  shows "nonces (step E (c, CreateAndPayInvoice m p a e md v r sg) s)
           = (nonces s)(m := nonces s m + 1)"
    and "unat (nonces (step E (c, CreateAndPayInvoice m p a e md v r sg) s) m)
           = unat (nonces s m) + 1"
  using assms
  by (auto simp: step_def transact_def body_defs unat_plus1 split: if_splits)

lemma step_other_nonces:
  "\<forall>m p a e md v r sg. cl \<noteq> CreateAndPayInvoice m p a e md v r sg
     \<Longrightarrow> nonces (step E (c, cl) s) = nonces s"
  by (cases cl) (auto simp: step_def transact_def body_defs split: sum.splits if_splits)

lemma distinct_of_map: "distinct (map f xs) \<Longrightarrow> distinct xs"
  by (simp add: distinct_map)

lemma step_unallocated:
  assumes "block_timestamp (fst tx) \<noteq> 0" and "msg_sender (fst tx) \<noteq> 0"
    and "\<forall>i. unat (nextInvoiceId s) \<le> unat i \<longrightarrow> invoices s i = zero_Invoice"
  shows "\<forall>i. unat (nextInvoiceId (step E tx s)) \<le> unat i
           \<longrightarrow> invoices (step E tx s) i = zero_Invoice"
proof (cases tx)
  case (Pair c cl)
  with assms show ?thesis
    by (cases cl)
       (auto simp: step_def transact_def body_defs unat_plus1 zero_Invoice_def
             split: sum.splits if_splits)
qed

lemma returned_Inr: "returned out = Inr r \<longleftrightarrow> (\<exists>s' acts. out = Inr (r, s', acts))"
  by (auto simp: returned_def split: sum.splits)

lemma returned_Inl: "returned out = Inl e \<longleftrightarrow> out = Inl e"
  by (auto simp: returned_def split: sum.splits)

lemma run_unallocated:
  assumes "\<forall>tx \<in> set txs. block_timestamp (fst tx) \<noteq> 0 \<and> msg_sender (fst tx) \<noteq> 0"
    and "\<forall>i. unat (nextInvoiceId s) \<le> unat i \<longrightarrow> invoices s i = zero_Invoice"
  shows "\<forall>i. unat (nextInvoiceId (run E txs s)) \<le> unat i
           \<longrightarrow> invoices (run E txs s) i = zero_Invoice"
  using assms
proof (induction txs arbitrary: s)
  case Nil
  then show ?case by simp
next
  case (Cons tx txs)
  have "\<forall>i. unat (nextInvoiceId (step E tx s)) \<le> unat i
           \<longrightarrow> invoices (step E tx s) i = zero_Invoice"
    using Cons.prems by (intro step_unallocated) simp_all
  with Cons.IH [of "step E tx s"] Cons.prems(1) show ?case by simp
qed

lemma step_status:
  assumes "unat i < unat (nextInvoiceId s)"
  shows "status (invoices (step E (c, cl) s) i) = status (invoices s i)
     \<or> status (invoices s i) = 0 \<and> cl = Pay i \<and> status (invoices (step E (c, cl) s) i) = 1
     \<or> status (invoices s i) = 0 \<and> cl = CancelInvoice i
          \<and> status (invoices (step E (c, cl) s) i) = 2"
  using assms
  by (cases cl) (auto simp: step_def transact_def body_defs split: sum.splits if_splits)

lemma step_fields:
  assumes "unat i < unat (nextInvoiceId s)"
  shows "merchant (invoices (step E tx s) i) = merchant (invoices s i)"
    and "payer (invoices (step E tx s) i) = payer (invoices s i)"
    and "amount (invoices (step E tx s) i) = amount (invoices s i)"
    and "expiresAt (invoices (step E tx s) i) = expiresAt (invoices s i)"
    and "metaHash (invoices (step E tx s) i) = metaHash (invoices s i)"
proof -
  obtain c cl where tx: "tx = (c, cl)" by (cases tx)
  show "merchant (invoices (step E tx s) i) = merchant (invoices s i)"
    using assms unfolding tx
    by (cases cl) (auto simp: step_def transact_def body_defs split: sum.splits if_splits)
  show "payer (invoices (step E tx s) i) = payer (invoices s i)"
    using assms unfolding tx
    by (cases cl) (auto simp: step_def transact_def body_defs split: sum.splits if_splits)
  show "amount (invoices (step E tx s) i) = amount (invoices s i)"
    using assms unfolding tx
    by (cases cl) (auto simp: step_def transact_def body_defs split: sum.splits if_splits)
  show "expiresAt (invoices (step E tx s) i) = expiresAt (invoices s i)"
    using assms unfolding tx
    by (cases cl) (auto simp: step_def transact_def body_defs split: sum.splits if_splits)
  show "metaHash (invoices (step E tx s) i) = metaHash (invoices s i)"
    using assms unfolding tx
    by (cases cl) (auto simp: step_def transact_def body_defs split: sum.splits if_splits)
qed

lemma run_status_terminal:
  assumes "unat i < unat (nextInvoiceId s)" and "status (invoices s i) \<noteq> 0"
  shows "status (invoices (run E txs s) i) = status (invoices s i)"
  using assms
proof (induction txs arbitrary: s)
  case Nil
  then show ?case by simp
next
  case (Cons tx txs)
  obtain c cl where tx: "tx = (c, cl)" by (cases tx)
  from step_status [OF Cons.prems(1), of E c cl] Cons.prems(2)
  have same: "status (invoices (step E tx s) i) = status (invoices s i)"
    by (auto simp: tx)
  moreover have "unat i < unat (nextInvoiceId (step E tx s))"
    using Cons.prems(1) step_next_mono [of s E tx] by simp
  ultimately show ?case
    using Cons.IH [of "step E tx s"] Cons.prems(2) by simp
qed

lemma run_amount:
  assumes "unat i < unat (nextInvoiceId s)"
  shows "amount (invoices (run E txs s) i) = amount (invoices s i)
     \<and> merchant (invoices (run E txs s) i) = merchant (invoices s i)"
  using assms
proof (induction txs arbitrary: s)
  case Nil
  then show ?case by simp
next
  case (Cons tx txs)
  have "unat i < unat (nextInvoiceId (step E tx s))"
    using Cons.prems step_next_mono [of s E tx] by simp
  with Cons.IH [of "step E tx s"] step_fields(1,3) [OF Cons.prems, of E tx]
  show ?case by simp
qed

lemma step_status_range:
  assumes "\<forall>i. status (invoices s i) \<in> {0, 1, 2}"
  shows "\<forall>i. status (invoices (step E tx s) i) \<in> {0, 1, 2}"
proof -
  obtain c cl where tx: "tx = (c, cl)" by (cases tx)
  show ?thesis using assms unfolding tx
    by (cases cl) (auto simp: step_def transact_def body_defs split: sum.splits if_splits)
qed

lemma run_status_range:
  assumes "\<forall>i. status (invoices s i) \<in> {0, 1, 2}"
  shows "\<forall>i. status (invoices (run E txs s) i) \<in> {0, 1, 2}"
  using assms
proof (induction txs arbitrary: s)
  case Nil
  then show ?case by simp
next
  case (Cons tx txs)
  from Cons.IH [OF step_status_range [OF Cons.prems, of E tx]] show ?case by simp
qed

lemma step_gasless_domain:
  "DOMAIN_SEPARATOR (step E tx s) = DOMAIN_SEPARATOR s"
proof -
  obtain c cl where tx: "tx = (c, cl)" by (cases tx)
  show ?thesis unfolding tx
    by (cases cl) (auto simp: step_def transact_def body_defs split: sum.splits if_splits)
qed

lemma digest_cong: "DOMAIN_SEPARATOR s' = DOMAIN_SEPARATOR s
    \<Longrightarrow> digest E s' m p a e mh n = digest E s m p a e mh n"
  by (simp add: digest_def)

lemma run_domain: "DOMAIN_SEPARATOR (run E txs s) = DOMAIN_SEPARATOR s"
  by (induction txs arbitrary: s) (simp_all add: step_gasless_domain)

lemma demo2_run_nonce:
  "unat (nonces (run demo_evm2
           [(demo_ctx 9 10 True, Pay 0),
            (demo_ctx 8 20 True, CreateAndPayInvoice 7 0 200 50 [] 27 1 7)]
           (step demo_evm2 (demo_ctx 9 10 True, CreateAndPayInvoice 7 0 100 50 [] 27 0 7)
              demo_registry)) 7) = 2"
  by (simp add: step_def transact_def createAndPayInvoice_def verifySignature_def demo2_digest
      pay_def demo_registry_simps demo_ctx_simps Let_def demo2_simps)

section \<open>A failed transfer leaves nothing behind\<close>

text \<open>
  Claim C1. Whenever \<open>pay\<close> reaches the external transfer (the invoice is pending, not
  expired, and the caller is an admitted payer) and the transfer answers \<open>false\<close>, the
  call reverts with "Transfer failed" and the storage is what it was: \<open>getInvoice\<close>
  still reports status 0 (Pending), and a later \<open>pay\<close> in time, by an admitted payer,
  whose transfer succeeds, returns and leaves the invoice Paid. Whenever
  \<open>createAndPayInvoice\<close> reaches the transfer and the transfer answers \<open>false\<close>, the
  call reverts with "Transfer failed" and the invoice table, the identifier counter and
  the merchant's nonce are what they were.
\<close>

theorem transfer_failure_rolls_back:
  "(status (invoices s i) = 0 \<and> block_timestamp c \<le> ucast (expiresAt (invoices s i))
      \<and> (payer (invoices s i) = 0 \<or> msg_sender c = payer (invoices s i))
      \<and> \<not> transferFrom c (msg_sender c) (merchant (invoices s i)) (amount (invoices s i))
    \<longrightarrow> transact (pay c i) s = (s, Inl Transfer_failed)
      \<and> fst (snd (snd (snd (snd (getInvoice (fst (transact (pay c i) s)) i))))) = 0
      \<and> (block_timestamp c' \<le> ucast (expiresAt (invoices s i))
             \<and> (payer (invoices s i) = 0 \<or> msg_sender c' = payer (invoices s i))
             \<and> transferFrom c' (msg_sender c') (merchant (invoices s i)) (amount (invoices s i))
           \<longrightarrow> returned (pay c' i (fst (transact (pay c i) s))) = Inr ()
             \<and> status (invoices (fst (transact (pay c' i) (fst (transact (pay c i) s)))) i) = 1))
   \<and> (block_timestamp c \<le> ucast e \<and> (p = 0 \<or> msg_sender c = p)
      \<and> verifySignature E s m p a e (keccak256 E md) (nonces s m) v r sg
      \<and> nonces s m \<noteq> - 1 \<and> nextInvoiceId s \<noteq> - 1
      \<and> \<not> transferFrom c (msg_sender c) m a
    \<longrightarrow> transact (createAndPayInvoice E c m p a e md v r sg) s = (s, Inl Transfer_failed)
      \<and> invoices (fst (transact (createAndPayInvoice E c m p a e md v r sg) s)) = invoices s
      \<and> nextInvoiceId (fst (transact (createAndPayInvoice E c m p a e md v r sg) s))
          = nextInvoiceId s
      \<and> nonces (fst (transact (createAndPayInvoice E c m p a e md v r sg) s)) m = nonces s m)"
  by (auto simp: transact_def pay_def createAndPayInvoice_def Let_def returned_def getInvoice_def)

text \<open>
  On the demo registry: payer 9's transfer fails at time 20 and succeeds at time 30.
\<close>

theorem transfer_failure_rolls_back_witness:
  "transact (pay (demo_ctx 9 20 False) 0) demo_registry = (demo_registry, Inl Transfer_failed)
   \<and> returned (pay (demo_ctx 9 30 True) 0
        (fst (transact (pay (demo_ctx 9 20 False) 0) demo_registry))) = Inr ()
   \<and> transact (createAndPayInvoice demo_evm (demo_ctx 9 20 False) 7 0 100 50 [] 27 0 7)
        demo_registry = (demo_registry, Inl Transfer_failed)"
  using transfer_failure_rolls_back [of demo_registry 0 "demo_ctx 9 20 False" "demo_ctx 9 30 True"
      50 0 demo_evm 7 100 "[]" 27 0 7] demo_verify
  by (auto simp: demo_registry_simps demo_ctx_simps)

section \<open>The order of the checks on the gasless path\<close>

text \<open>
  At time 60 an authorization that expired at 50 and whose signature does not recover
  merchant 7 reverts with "Expired": the expiry check runs before the signature check.
\<close>

theorem gasless_check_order_counterexample:
  "\<not> block_timestamp (demo_ctx 9 60 True) \<le> ucast (50 :: uint64)
   \<and> ecrecover demo_evm (digest demo_evm demo_registry 7 0 100 50 (keccak256 demo_evm [])
        (nonces demo_registry 7)) 27 0 0 \<noteq> 7
   \<and> createAndPayInvoice demo_evm (demo_ctx 9 60 True) 7 0 100 50 [] 27 0 0 demo_registry
       = Inl Expired"
  by code_simp

text \<open>
  Claim C2, as the code has it. \<open>createAndPayInvoice\<close> checks the expiry first, then the
  payer restriction, then the signature: an authorization past its \<open>expiresAt\<close> reverts
  with "Expired" whatever its signature; one in time but submitted by another caller than
  its specific payer reverts with "Wrong payer" whatever its signature; and only one that
  passes both checks reverts with "Invalid signature", the single error for a recovery
  that yields the null identity and for one that yields another identity than the
  merchant.
\<close>

theorem gasless_check_order:
  "(\<not> block_timestamp c \<le> ucast e
      \<longrightarrow> createAndPayInvoice E c m p a e md v r sg s = Inl Expired)
   \<and> (block_timestamp c \<le> ucast e \<and> p \<noteq> 0 \<and> msg_sender c \<noteq> p
      \<longrightarrow> createAndPayInvoice E c m p a e md v r sg s = Inl Wrong_payer)
   \<and> (block_timestamp c \<le> ucast e \<and> (p = 0 \<or> msg_sender c = p)
       \<and> (ecrecover E (digest E s m p a e (keccak256 E md) (nonces s m)) v r sg = 0
          \<or> ecrecover E (digest E s m p a e (keccak256 E md) (nonces s m)) v r sg \<noteq> m)
      \<longrightarrow> createAndPayInvoice E c m p a e md v r sg s = Inl Invalid_signature)
   \<and> (createAndPayInvoice E c m p a e md v r sg s = Inl Invalid_signature
      \<longrightarrow> block_timestamp c \<le> ucast e \<and> (p = 0 \<or> msg_sender c = p))"
  by (auto simp: createAndPayInvoice_def verifySignature_def Let_def split: if_splits)

theorem gasless_check_order_witness:
  "createAndPayInvoice demo_evm (demo_ctx 9 60 True) 7 5 100 50 [] 27 0 0 demo_registry
       = Inl Expired
   \<and> createAndPayInvoice demo_evm (demo_ctx 9 20 True) 7 5 100 50 [] 27 0 0 demo_registry
       = Inl Wrong_payer
   \<and> createAndPayInvoice demo_evm (demo_ctx 5 20 True) 7 5 100 50 [] 27 0 0 demo_registry
       = Inl Invalid_signature
   \<and> block_timestamp (demo_ctx 5 20 True) \<le> ucast (50 :: uint64)
   \<and> msg_sender (demo_ctx 5 20 True) = 5"
  using gasless_check_order [of "demo_ctx 9 60 True" 50 demo_evm 7 5 100 "[]" 27 0 0 demo_registry]
    gasless_check_order [of "demo_ctx 9 20 True" 50 demo_evm 7 5 100 "[]" 27 0 0 demo_registry]
    gasless_check_order [of "demo_ctx 5 20 True" 50 demo_evm 7 5 100 "[]" 27 0 0 demo_registry]
  by (simp add: demo_ctx_simps demo_evm_def)

section \<open>The nonce table\<close>

text \<open>
  Claim C3. A merchant's nonce is 0 in a fresh registry. Along any run of transactions
  from any storage, the nonce values that the merchant's successful gasless
  authorizations consumed are, in order, exactly the numbers from the nonce at the start
  up to (excluding) the nonce at the end: each success consumes the stored value and
  stores that value plus 1 (without wrap-around), no value is consumed twice, and the
  nonce never decreases. A gasless call that returns adds exactly 1 to its merchant's
  nonce and leaves every other merchant's alone; a call that reverts, for whatever reason,
  and every call of another entry point leave the whole nonce table as it was.
\<close>

theorem nonce_discipline:
  "nonces (constructor E chainId this) who = 0
   \<and> map unat (consumed_nonces E txs s who)
       = [unat (nonces s who)..<unat (nonces (run E txs s) who)]
   \<and> distinct (consumed_nonces E txs s who)
   \<and> unat (nonces s who) \<le> unat (nonces (run E txs s) who)
   \<and> (returned (createAndPayInvoice E c m p a e md v r sg s) = Inr ()
      \<longrightarrow> unat (nonces (step E (c, CreateAndPayInvoice m p a e md v r sg) s) m)
            = unat (nonces s m) + 1
        \<and> (who \<noteq> m
           \<longrightarrow> nonces (step E (c, CreateAndPayInvoice m p a e md v r sg) s) who = nonces s who))
   \<and> (returned (exec E c cl s) = Inl err \<longrightarrow> nonces (step E (c, cl) s) = nonces s)
   \<and> ((\<forall>m p a e md v r sg. cl \<noteq> CreateAndPayInvoice m p a e md v r sg)
      \<longrightarrow> nonces (step E (c, cl) s) = nonces s)"
proof -
  have "distinct (map unat (consumed_nonces E txs s who))"
    by (simp add: run_nonces_consumed)
  then have "distinct (consumed_nonces E txs s who)"
    by (rule distinct_of_map)
  moreover have "returned (exec E c cl s) = Inl err \<longrightarrow> nonces (step E (c, cl) s) = nonces s"
    using step_reverted [of E "(c, cl)" s err] by (simp add: returned_Inl)
  moreover have "returned (createAndPayInvoice E c m p a e md v r sg s) = Inr ()
      \<longrightarrow> unat (nonces (step E (c, CreateAndPayInvoice m p a e md v r sg) s) m)
            = unat (nonces s m) + 1
        \<and> (who \<noteq> m
           \<longrightarrow> nonces (step E (c, CreateAndPayInvoice m p a e md v r sg) s) who = nonces s who)"
    using step_gasless_nonces [of E c m p a e md v r sg s] by (auto simp: returned_Inr)
  ultimately show ?thesis
    using run_nonces_consumed [of E txs s who] run_nonces_mono [of s who E txs]
      step_other_nonces [of cl E c s]
    by (simp add: constructor_def)
qed

text \<open>
  On the demo registry: a gasless authorization of merchant 7 that succeeds, one that
  is submitted too late, and a direct payment.
\<close>

theorem nonce_discipline_witness:
  "returned (createAndPayInvoice demo_evm (demo_ctx 9 10 True) 7 0 100 50 [] 27 0 7 demo_registry)
      = Inr ()
   \<and> unat (nonces (step demo_evm (demo_ctx 9 10 True, CreateAndPayInvoice 7 0 100 50 [] 27 0 7)
        demo_registry) 7) = 1
   \<and> nonces (step demo_evm (demo_ctx 9 10 True, CreateAndPayInvoice 7 0 100 50 [] 27 0 7)
        demo_registry) 8 = 0
   \<and> returned (exec demo_evm (demo_ctx 9 60 True) (CreateAndPayInvoice 7 0 100 50 [] 27 0 7)
        demo_registry) = Inl Expired
   \<and> nonces (step demo_evm (demo_ctx 9 60 True, CreateAndPayInvoice 7 0 100 50 [] 27 0 7)
        demo_registry) = nonces demo_registry
   \<and> nonces (step demo_evm (demo_ctx 9 20 True, Pay 0) demo_registry) = nonces demo_registry"
proof -
  note ok = demo_gasless_ok
  have late: "returned (exec demo_evm (demo_ctx 9 60 True)
      (CreateAndPayInvoice 7 0 100 50 [] 27 0 7) demo_registry) = Inl Expired"
    by (simp add: createAndPayInvoice_def demo_ctx_simps returned_def)
  show ?thesis
    using ok late
      nonce_discipline [of demo_evm 1 1 8 "[]" demo_registry "demo_ctx 9 10 True" 7 0 100 50 "[]"
        27 0 7 "CreateAndPayInvoice 7 0 100 50 [] 27 0 7" Expired]
      nonce_discipline [of demo_evm 1 1 8 "[]" demo_registry "demo_ctx 9 60 True" 7 0 100 50 "[]"
        27 0 7 "CreateAndPayInvoice 7 0 100 50 [] 27 0 7" Expired]
      nonce_discipline [of demo_evm 1 1 8 "[]" demo_registry "demo_ctx 9 20 True" 7 0 100 50 "[]"
        27 0 7 "Pay 0" Expired]
    by (simp add: demo_registry_simps)
qed

section \<open>Invoice identifiers\<close>




section \<open>Identifiers that were never allocated\<close>

text \<open>
  The contract has no "not found" answer. On the demo registry, where only identifier 0
  was allocated, \<open>getInvoice 1\<close> returns the all-zero record, \<open>pay 1\<close> reverts with
  "Expired" and \<open>cancelInvoice 1\<close> reverts with "Not merchant".
\<close>

theorem unallocated_id_counterexample:
  "nextInvoiceId demo_registry = 1
   \<and> getInvoice demo_registry 1 = (0, 0, 0, 0, 0, 0)
   \<and> pay (demo_ctx 9 20 True) 1 demo_registry = Inl Expired
   \<and> cancelInvoice (demo_ctx 9 20 True) 1 demo_registry = Inl Not_merchant"
  by (simp add: getInvoice_def pay_def cancelInvoice_def demo_registry_simps demo_ctx_simps
      zero_Invoice_def)

text \<open>
  Claim C5, as the code has it. In every registry reached from the constructor by
  transactions with a non-zero block time and a non-zero caller, an identifier that is
  not below the counter (one that no creation has allocated) reads as the all-zero
  record: \<open>getInvoice\<close> returns that record (merchant 0, status 0) and no error,
  \<open>pay\<close> at any non-zero block time reverts with "Expired", since the record's
  \<open>expiresAt\<close> is 0, and \<open>cancelInvoice\<close> by any non-zero caller reverts with
  "Not merchant", since the record's merchant is the zero address.
\<close>

theorem unallocated_id_reads_zero:
  "(\<forall>tx \<in> set txs. block_timestamp (fst tx) \<noteq> 0 \<and> msg_sender (fst tx) \<noteq> 0)
     \<and> nextInvoiceId (run E txs (constructor E chainId this)) \<le> i
   \<longrightarrow> getInvoice (run E txs (constructor E chainId this)) i = (0, 0, 0, 0, 0, 0)
     \<and> (block_timestamp c \<noteq> 0
        \<longrightarrow> pay c i (run E txs (constructor E chainId this)) = Inl Expired)
     \<and> (msg_sender c \<noteq> 0
        \<longrightarrow> cancelInvoice c i (run E txs (constructor E chainId this)) = Inl Not_merchant)"
proof (intro impI, elim conjE)
  let ?s = "run E txs (constructor E chainId this)"
  assume wf: "\<forall>tx \<in> set txs. block_timestamp (fst tx) \<noteq> 0 \<and> msg_sender (fst tx) \<noteq> 0"
    and fresh: "nextInvoiceId ?s \<le> i"
  have "\<forall>i. unat (nextInvoiceId (constructor E chainId this)) \<le> unat i
          \<longrightarrow> invoices (constructor E chainId this) i = zero_Invoice"
    by (simp add: constructor_def)
  from run_unallocated [OF wf this, of E] fresh
  have z: "invoices ?s i = zero_Invoice"
    by (simp add: word_le_nat_alt)
  show "getInvoice ?s i = (0, 0, 0, 0, 0, 0)
     \<and> (block_timestamp c \<noteq> 0 \<longrightarrow> pay c i ?s = Inl Expired)
     \<and> (msg_sender c \<noteq> 0 \<longrightarrow> cancelInvoice c i ?s = Inl Not_merchant)"
    by (auto simp: getInvoice_def pay_def cancelInvoice_def z zero_Invoice_def)
qed

theorem unallocated_id_reads_zero_witness:
  "nextInvoiceId demo_registry \<le> 5
   \<and> getInvoice demo_registry 5 = (0, 0, 0, 0, 0, 0)
   \<and> pay (demo_ctx 9 20 True) 5 demo_registry = Inl Expired
   \<and> cancelInvoice (demo_ctx 9 20 True) 5 demo_registry = Inl Not_merchant"
  using unallocated_id_reads_zero [of "[(demo_ctx 7 10 True, CreateInvoice 0 100 50 [])]"
      demo_evm 2201 4096 5 "demo_ctx 9 20 True"]
  by (simp add: demo_ctx_simps demo_registry_simps demo_registry_def [symmetric]
      demo_init_def [symmetric])

section \<open>Creation validates nothing\<close>

text \<open>
  On a fresh registry, \<open>createInvoice\<close> with amount 0 returns identifier 0 and stores a
  pending invoice of amount 0.
\<close>

theorem create_zero_amount_counterexample:
  "returned (createInvoice demo_evm (demo_ctx 7 10 True) 0 0 50 [] demo_init) = Inr 0
   \<and> amount (invoices (step demo_evm (demo_ctx 7 10 True, CreateInvoice 0 0 50 []) demo_init) 0) = 0
   \<and> status (invoices (step demo_evm (demo_ctx 7 10 True, CreateInvoice 0 0 50 []) demo_init) 0) = 0"
  by (simp add: createInvoice_def returned_def step_def transact_def demo_init_simps Let_def)

text \<open>
  Claim C6, as the code has it. \<open>createInvoice\<close> validates none of its arguments: for
  every payer, amount (0 included), expiry (one in the past included) and metadata it
  returns the next identifier and stores the pending invoice with exactly these fields.
  Its only failure is the arithmetic panic when the identifier counter is at its maximum.
  A pending invoice whose \<open>expiresAt\<close> is in the past is unpayable: \<open>pay\<close> reverts
  with "Expired".
\<close>

theorem create_validates_nothing:
  "(nextInvoiceId s \<noteq> - 1
      \<longrightarrow> returned (createInvoice E c p a e md s) = Inr (nextInvoiceId s)
        \<and> invoices (step E (c, CreateInvoice p a e md) s) (nextInvoiceId s)
            = \<lparr>merchant = msg_sender c, payer = p, amount = a, expiresAt = e, status = 0,
               metaHash = keccak256 E md\<rparr>)
   \<and> (returned (createInvoice E c p a e md s) = Inl err
      \<longrightarrow> err = Panic_overflow \<and> nextInvoiceId s = - 1)
   \<and> (status (invoices s i) = 0 \<and> ucast (expiresAt (invoices s i)) < block_timestamp c'
      \<longrightarrow> pay c' i s = Inl Expired)"
  by (auto simp: createInvoice_def returned_def step_def transact_def pay_def Let_def
        split: if_splits)

text \<open>
  On the demo registry at time 60: an invoice of amount 0 that expired at 50 is created
  under identifier 1, and invoice 0, which expired at 50, cannot be paid. With the counter
  at its maximum the creation panics.
\<close>

theorem create_validates_nothing_witness:
  "returned (createInvoice demo_evm (demo_ctx 7 60 True) 0 0 50 [] demo_registry) = Inr 1
   \<and> invoices (step demo_evm (demo_ctx 7 60 True, CreateInvoice 0 0 50 []) demo_registry) 1
       = \<lparr>merchant = 7, payer = 0, amount = 0, expiresAt = 50, status = 0, metaHash = 0\<rparr>
   \<and> pay (demo_ctx 9 60 True) 0 demo_registry = Inl Expired
   \<and> returned (createInvoice demo_evm (demo_ctx 7 60 True) 0 0 50 []
        (demo_registry\<lparr>nextInvoiceId := - 1\<rparr>)) = Inl Panic_overflow"
proof -
  have full: "returned (createInvoice demo_evm (demo_ctx 7 60 True) 0 0 50 []
      (demo_registry\<lparr>nextInvoiceId := - 1\<rparr>)) = Inl Panic_overflow"
    by (simp add: createInvoice_def returned_def)
  show ?thesis
    using full
      create_validates_nothing [of demo_registry demo_evm "demo_ctx 7 60 True" 0 0 50 "[]"
        Panic_overflow 0 "demo_ctx 9 60 True"]
      create_validates_nothing [of "demo_registry\<lparr>nextInvoiceId := - 1\<rparr>" demo_evm
        "demo_ctx 7 60 True" 0 0 50 "[]" Panic_overflow 0 "demo_ctx 9 60 True"]
    by (simp add: demo_registry_simps demo_ctx_simps demo_evm_def)
qed

section \<open>The status of an invoice\<close>

text \<open>
  After invoice 0 of the demo registry was paid by 9, a cancellation by 9, who is not
  its merchant, reverts with "Not merchant", not with the error for a terminal invoice.
\<close>

theorem terminal_cancel_counterexample:
  "status (invoices (step demo_evm (demo_ctx 9 20 True, Pay 0) demo_registry) 0) = 1
   \<and> merchant (invoices (step demo_evm (demo_ctx 9 20 True, Pay 0) demo_registry) 0) = 7
   \<and> cancelInvoice (demo_ctx 9 30 True) 0
        (step demo_evm (demo_ctx 9 20 True, Pay 0) demo_registry) = Inl Not_merchant"
  by (simp add: step_def transact_def pay_def cancelInvoice_def demo_registry_simps
      demo_ctx_simps Let_def)

text \<open>
  Claim C7, as the code has it. For an allocated identifier, one transaction either
  leaves the status as it is, or moves it from 0 (Pending) to 1 (Paid) and is a \<open>pay\<close>
  of that invoice, or moves it from 0 to 2 (Cancelled) and is a \<open>cancelInvoice\<close> of
  that invoice. Once the status of an allocated invoice is not 0, no run of transactions
  changes it; in every registry reached from the constructor the status is 0, 1 or 2.
  On an invoice whose status is not 0, \<open>pay\<close> reverts with "Not pending" and
  \<open>cancelInvoice\<close> by its merchant reverts with "Cannot cancel"; \<open>cancelInvoice\<close> by
  anyone else reverts with "Not merchant", whatever the status, because the merchant
  check comes first.
\<close>

theorem status_moves_once:
  "(unat i < unat (nextInvoiceId s)
      \<longrightarrow> status (invoices (step E (c, cl) s) i) = status (invoices s i)
        \<or> status (invoices s i) = 0 \<and> cl = Pay i
            \<and> status (invoices (step E (c, cl) s) i) = 1
        \<or> status (invoices s i) = 0 \<and> cl = CancelInvoice i
            \<and> status (invoices (step E (c, cl) s) i) = 2)
   \<and> (unat i < unat (nextInvoiceId s) \<and> status (invoices s i) \<noteq> 0
      \<longrightarrow> status (invoices (run E txs s) i) = status (invoices s i))
   \<and> status (invoices (run E txs (constructor E chainId this)) i) \<in> {0, 1, 2}
   \<and> (status (invoices s i) \<noteq> 0 \<longrightarrow> pay c i s = Inl Not_pending)
   \<and> (status (invoices s i) \<noteq> 0 \<and> msg_sender c = merchant (invoices s i)
      \<longrightarrow> cancelInvoice c i s = Inl Cannot_cancel)
   \<and> (msg_sender c \<noteq> merchant (invoices s i)
      \<longrightarrow> cancelInvoice c i s = Inl Not_merchant)"
proof -
  have one: "unat i < unat (nextInvoiceId s)
      \<longrightarrow> status (invoices (step E (c, cl) s) i) = status (invoices s i)
        \<or> status (invoices s i) = 0 \<and> cl = Pay i
            \<and> status (invoices (step E (c, cl) s) i) = 1
        \<or> status (invoices s i) = 0 \<and> cl = CancelInvoice i
            \<and> status (invoices (step E (c, cl) s) i) = 2"
    using step_status [of i s E c cl] by blast
  have fin: "unat i < unat (nextInvoiceId s) \<and> status (invoices s i) \<noteq> 0
      \<longrightarrow> status (invoices (run E txs s) i) = status (invoices s i)"
    using run_status_terminal [of i s E txs] by blast
  have "\<forall>i. status (invoices (constructor E chainId this) i) \<in> {0, 1, 2}"
    by (simp add: constructor_def zero_Invoice_def)
  from run_status_range [OF this, of E txs]
  have rng: "status (invoices (run E txs (constructor E chainId this)) i) \<in> {0, 1, 2}"
    by blast
  have p: "status (invoices s i) \<noteq> 0 \<longrightarrow> pay c i s = Inl Not_pending"
    by (simp add: pay_def)
  have cm: "status (invoices s i) \<noteq> 0 \<and> msg_sender c = merchant (invoices s i)
      \<longrightarrow> cancelInvoice c i s = Inl Cannot_cancel"
    by (simp add: cancelInvoice_def)
  have cn: "msg_sender c \<noteq> merchant (invoices s i)
      \<longrightarrow> cancelInvoice c i s = Inl Not_merchant"
    by (simp add: cancelInvoice_def)
  show ?thesis
    by (intro conjI) (fact one fin rng p cm cn)+
qed

text \<open>
  On the demo registry after invoice 0 was paid: a cancellation by the merchant leaves
  the status at 1, and a second payment and cancellations revert.
\<close>

theorem status_moves_once_witness:
  "status (invoices (step demo_evm (demo_ctx 9 20 True, Pay 0) demo_registry) 0) = 1
   \<and> status (invoices (run demo_evm [(demo_ctx 7 30 True, CancelInvoice 0)]
        (step demo_evm (demo_ctx 9 20 True, Pay 0) demo_registry)) 0) = 1
   \<and> pay (demo_ctx 9 30 True) 0 (step demo_evm (demo_ctx 9 20 True, Pay 0) demo_registry)
       = Inl Not_pending
   \<and> cancelInvoice (demo_ctx 7 30 True) 0
        (step demo_evm (demo_ctx 9 20 True, Pay 0) demo_registry) = Inl Cannot_cancel
   \<and> cancelInvoice (demo_ctx 9 30 True) 0
        (step demo_evm (demo_ctx 9 20 True, Pay 0) demo_registry) = Inl Not_merchant"
proof -
  let ?paid = "step demo_evm (demo_ctx 9 20 True, Pay 0) demo_registry"
  have paid: "status (invoices ?paid 0) = 1" "merchant (invoices ?paid 0) = 7"
    "nextInvoiceId ?paid = 1"
    by (simp_all add: step_def transact_def pay_def demo_registry_simps demo_ctx_simps Let_def)
  show ?thesis
    using paid
      status_moves_once [of 0 ?paid demo_evm "demo_ctx 7 30 True" "CancelInvoice 0"
        "[(demo_ctx 7 30 True, CancelInvoice 0)]" 1 1]
      status_moves_once [of 0 ?paid demo_evm "demo_ctx 9 30 True" "CancelInvoice 0"
        "[(demo_ctx 7 30 True, CancelInvoice 0)]" 1 1]
    by (simp add: demo_ctx_simps)
qed

section \<open>The order of effects in a payment\<close>

text \<open>
  Claim C8. A \<open>pay\<close> that returns makes exactly one external call, before its only
  event: \<open>transferFrom(caller, merchant, amount)\<close> with the merchant and the amount
  stored for the invoice before the call, and the storage at the moment of that call
  already holds status 1 (Paid) for the invoice, which was 0 (Pending) before. The
  transfer answered \<open>true\<close>, the storage the call leaves is that very storage, and the
  stored amount is the one from before; no run of transactions ever changes the amount
  of an allocated invoice.
\<close>

theorem pay_marks_paid_before_transfer:
  "(returned (pay c i s) = Inr ()
      \<longrightarrow> actions_of E (c, Pay i) s
          = [Called_transferFrom (s\<lparr>invoices := (invoices s)(i := (invoices s i)\<lparr>status := 1\<rparr>)\<rparr>)
               (msg_sender c) (merchant (invoices s i)) (amount (invoices s i)),
             Emitted (InvoicePaid i (msg_sender c) (merchant (invoices s i))
               (amount (invoices s i)))]
        \<and> status (invoices s i) = 0
        \<and> status (invoices (s\<lparr>invoices := (invoices s)(i := (invoices s i)\<lparr>status := 1\<rparr>)\<rparr>) i) = 1
        \<and> transferFrom c (msg_sender c) (merchant (invoices s i)) (amount (invoices s i))
        \<and> step E (c, Pay i) s = s\<lparr>invoices := (invoices s)(i := (invoices s i)\<lparr>status := 1\<rparr>)\<rparr>
        \<and> amount (invoices (step E (c, Pay i) s) i) = amount (invoices s i))
   \<and> (unat i < unat (nextInvoiceId s)
      \<longrightarrow> amount (invoices (run E txs s) i) = amount (invoices s i))"
proof -
  have a: "returned (pay c i s) = Inr ()
      \<longrightarrow> actions_of E (c, Pay i) s
          = [Called_transferFrom (s\<lparr>invoices := (invoices s)(i := (invoices s i)\<lparr>status := 1\<rparr>)\<rparr>)
               (msg_sender c) (merchant (invoices s i)) (amount (invoices s i)),
             Emitted (InvoicePaid i (msg_sender c) (merchant (invoices s i))
               (amount (invoices s i)))]
        \<and> status (invoices s i) = 0
        \<and> status (invoices (s\<lparr>invoices := (invoices s)(i := (invoices s i)\<lparr>status := 1\<rparr>)\<rparr>) i) = 1
        \<and> transferFrom c (msg_sender c) (merchant (invoices s i)) (amount (invoices s i))
        \<and> step E (c, Pay i) s = s\<lparr>invoices := (invoices s)(i := (invoices s i)\<lparr>status := 1\<rparr>)\<rparr>
        \<and> amount (invoices (step E (c, Pay i) s) i) = amount (invoices s i)"
    by (auto simp: returned_Inr actions_of_def step_def transact_def pay_def Let_def
          split: if_splits)
  have b: "unat i < unat (nextInvoiceId s)
      \<longrightarrow> amount (invoices (run E txs s) i) = amount (invoices s i)"
    using run_amount [of i s E txs] by blast
  show ?thesis
    by (intro conjI) (fact a b)+
qed

text \<open>On the demo registry: 9 pays invoice 0, of amount 100, to merchant 7.\<close>

theorem pay_marks_paid_before_transfer_witness:
  "returned (pay (demo_ctx 9 20 True) 0 demo_registry) = Inr ()
   \<and> actions_of demo_evm (demo_ctx 9 20 True, Pay 0) demo_registry
       = [Called_transferFrom (step demo_evm (demo_ctx 9 20 True, Pay 0) demo_registry) 9 7 100,
          Emitted (InvoicePaid 0 9 7 100)]
   \<and> status (invoices (step demo_evm (demo_ctx 9 20 True, Pay 0) demo_registry) 0) = 1
   \<and> amount (invoices (run demo_evm [(demo_ctx 9 20 True, Pay 0)] demo_registry) 0) = 100"
proof -
  have ok: "returned (pay (demo_ctx 9 20 True) 0 demo_registry) = Inr ()"
    by (simp add: pay_def returned_def demo_registry_simps demo_ctx_simps Let_def)
  show ?thesis
    using ok pay_marks_paid_before_transfer [of "demo_ctx 9 20 True" 0 demo_registry demo_evm
        "[(demo_ctx 9 20 True, Pay 0)]"]
    by (simp add: demo_registry_simps demo_ctx_simps)
qed

section \<open>The dashboard reads the status under another encoding\<close>

text \<open>
  Claim C10. The contract encodes the status as 0 (Pending), 1 (Paid), 2 (Cancelled);
  the enum \<open>InvoiceStatus\<close> numbers \<open>NONE\<close> 0, \<open>CREATED\<close> 1, \<open>PAID\<close> 2 and
  \<open>CANCELLED\<close> 3, and the dashboard's projection copies the contract's number
  unchanged. So an invoice that the contract reports as Paid is projected as
  \<open>CREATED\<close> and shown with the badge PENDING, one that it reports as Cancelled is
  projected as \<open>PAID\<close> and shown with the badge PAID, and a pending one is projected as
  \<open>NONE\<close> and shown with no badge. In particular this is what the dashboard shows
  after a \<open>pay\<close> or a \<open>cancelInvoice\<close> that returned.
\<close>

theorem dashboard_status_mismatch:
  "map InvoiceStatus_number [NONE, CREATED, PAID, CANCELLED] = [0, 1, 2, 3]
   \<and> view_status (getMerchantInvoice s i) = uint (status (invoices s i))
   \<and> (status (invoices s i) = 1
      \<longrightarrow> view_status (getMerchantInvoice s i) = InvoiceStatus_number CREATED
        \<and> status_badges (getMerchantInvoice s i) = [''PENDING''])
   \<and> (status (invoices s i) = 2
      \<longrightarrow> view_status (getMerchantInvoice s i) = InvoiceStatus_number PAID
        \<and> status_badges (getMerchantInvoice s i) = [''PAID''])
   \<and> (status (invoices s i) = 0
      \<longrightarrow> view_status (getMerchantInvoice s i) = InvoiceStatus_number NONE
        \<and> status_badges (getMerchantInvoice s i) = [])
   \<and> (returned (pay c i s) = Inr ()
      \<longrightarrow> view_status (getMerchantInvoice (step E (c, Pay i) s) i)
          = InvoiceStatus_number CREATED)
   \<and> (returned (cancelInvoice c i s) = Inr ()
      \<longrightarrow> view_status (getMerchantInvoice (step E (c, CancelInvoice i) s) i)
          = InvoiceStatus_number PAID)"
  by (auto simp: getMerchantInvoice_def getInvoice_def status_badges_def returned_Inr
        step_def transact_def pay_def cancelInvoice_def Let_def split: if_splits)

text \<open>On the demo registry: invoice 0 after its payment, after its cancellation, and as created.\<close>

theorem dashboard_status_mismatch_witness:
  "returned (pay (demo_ctx 9 20 True) 0 demo_registry) = Inr ()
   \<and> status_badges (getMerchantInvoice (step demo_evm (demo_ctx 9 20 True, Pay 0) demo_registry) 0)
       = [''PENDING'']
   \<and> returned (cancelInvoice (demo_ctx 7 20 True) 0 demo_registry) = Inr ()
   \<and> status_badges (getMerchantInvoice
        (step demo_evm (demo_ctx 7 20 True, CancelInvoice 0) demo_registry) 0) = [''PAID'']
   \<and> status_badges (getMerchantInvoice demo_registry 0) = []
   \<and> view_status (getMerchantInvoice
        (step demo_evm (demo_ctx 9 20 True, Pay 0) demo_registry) 0)
       = InvoiceStatus_number CREATED
   \<and> view_status (getMerchantInvoice
        (step demo_evm (demo_ctx 7 20 True, CancelInvoice 0) demo_registry) 0)
       = InvoiceStatus_number PAID"
proof -
  let ?paid = "step demo_evm (demo_ctx 9 20 True, Pay 0) demo_registry"
  let ?cancelled = "step demo_evm (demo_ctx 7 20 True, CancelInvoice 0) demo_registry"
  have st: "status (invoices ?paid 0) = 1" "status (invoices ?cancelled 0) = 2"
    by (simp_all add: step_def transact_def pay_def cancelInvoice_def demo_registry_simps
        demo_ctx_simps Let_def)
  have ok: "returned (pay (demo_ctx 9 20 True) 0 demo_registry) = Inr ()"
    "returned (cancelInvoice (demo_ctx 7 20 True) 0 demo_registry) = Inr ()"
    by (simp_all add: pay_def cancelInvoice_def returned_def demo_registry_simps demo_ctx_simps
        Let_def)
  show ?thesis
    using st ok
      dashboard_status_mismatch [of ?paid 0 "demo_ctx 9 20 True" demo_evm]
      dashboard_status_mismatch [of ?cancelled 0 "demo_ctx 9 20 True" demo_evm]
      dashboard_status_mismatch [of demo_registry 0 "demo_ctx 9 20 True" demo_evm]
      dashboard_status_mismatch [of demo_registry 0 "demo_ctx 7 20 True" demo_evm]
    by (simp add: demo_registry_simps)
qed

section \<open>Replaying a consumed authorization\<close>

text \<open>
  Merchant 7's authorization, valid until time 50, is redeemed by 9 at time 10. The very
  same call by 9 at time 60 reverts with "Expired", not with the signature error.
\<close>

theorem replay_after_expiry_counterexample:
  "returned (createAndPayInvoice demo_evm (demo_ctx 9 10 True) 7 0 100 50 [] 27 0 7 demo_registry)
      = Inr ()
   \<and> returned (createAndPayInvoice demo_evm (demo_ctx 9 60 True) 7 0 100 50 [] 27 0 7
        (step demo_evm (demo_ctx 9 10 True, CreateAndPayInvoice 7 0 100 50 [] 27 0 7)
           demo_registry)) = Inl Expired"
proof (rule conjI)
  show "returned (createAndPayInvoice demo_evm (demo_ctx 9 10 True) 7 0 100 50 [] 27 0 7
      demo_registry) = Inr ()"
    by (rule demo_gasless_ok)
  show "returned (createAndPayInvoice demo_evm (demo_ctx 9 60 True) 7 0 100 50 [] 27 0 7
        (step demo_evm (demo_ctx 9 10 True, CreateAndPayInvoice 7 0 100 50 [] 27 0 7)
           demo_registry)) = Inl Expired"
    by (simp add: createAndPayInvoice_def returned_def demo_ctx_simps)
qed

text \<open>
  Claim C4, as the code has it. Take a gasless call that returns, and suppose that its
  signature does not recover the merchant from the digest over any larger value of the
  merchant's nonce (with the same fields and the same domain). Then the call has added
  exactly 1 to the merchant's nonce, and after any further transactions every call with
  the same merchant, fields and signature reverts and changes nothing. The identical
  call by the same caller at the same block time reverts with "Invalid signature"; in
  general the replay reverts with "Expired" if its block time is past \<open>expiresAt\<close>,
  else with "Wrong payer" if the payer is specific and the caller is someone else, and
  else with "Invalid signature", since the expiry and payer checks run before the
  signature check.
\<close>

theorem replay_is_rejected:
  "returned (createAndPayInvoice E c m p a e md v r sg s) = Inr ()
     \<and> (\<forall>n. unat (nonces s m) < unat n
          \<longrightarrow> ecrecover E (digest E s m p a e (keccak256 E md) n) v r sg \<noteq> m)
   \<longrightarrow> unat (nonces (step E (c, CreateAndPayInvoice m p a e md v r sg) s) m)
         = unat (nonces s m) + 1
     \<and> returned (createAndPayInvoice E c m p a e md v r sg
          (run E txs (step E (c, CreateAndPayInvoice m p a e md v r sg) s)))
         = Inl Invalid_signature
     \<and> returned (createAndPayInvoice E c' m p a e md v r sg
          (run E txs (step E (c, CreateAndPayInvoice m p a e md v r sg) s)))
         = Inl (if \<not> block_timestamp c' \<le> ucast e then Expired
                else if p \<noteq> 0 \<and> msg_sender c' \<noteq> p then Wrong_payer
                else Invalid_signature)
     \<and> step E (c', CreateAndPayInvoice m p a e md v r sg)
          (run E txs (step E (c, CreateAndPayInvoice m p a e md v r sg) s))
         = run E txs (step E (c, CreateAndPayInvoice m p a e md v r sg) s)"
proof (intro impI, elim conjE)
  let ?s1 = "step E (c, CreateAndPayInvoice m p a e md v r sg) s"
  let ?s' = "run E txs ?s1"
  assume ok: "returned (createAndPayInvoice E c m p a e md v r sg s) = Inr ()"
    and crypto: "\<forall>n. unat (nonces s m) < unat n
          \<longrightarrow> ecrecover E (digest E s m p a e (keccak256 E md) n) v r sg \<noteq> m"
  from ok obtain x where x: "createAndPayInvoice E c m p a e md v r sg s = Inr x"
    by (auto simp: returned_Inr)
  have u: "unat (nonces ?s1 m) = unat (nonces s m) + 1"
    using step_gasless_nonces(2) [OF x] .
  have later: "unat (nonces s m) < unat (nonces ?s' m)"
    using u run_nonces_mono [of ?s1 m E txs] by simp
  have d: "digest E ?s' m p a e (keccak256 E md) (nonces ?s' m)
      = digest E s m p a e (keccak256 E md) (nonces ?s' m)"
    by (rule digest_cong) (simp add: run_domain step_gasless_domain)
  have bad: "\<not> verifySignature E ?s' m p a e (keccak256 E md) (nonces ?s' m) v r sg"
    using crypto later by (simp add: verifySignature_def d)
  have first: "block_timestamp c \<le> ucast e" "p = 0 \<or> msg_sender c = p"
    using x by (auto simp: createAndPayInvoice_def split: if_splits)
  have any: "createAndPayInvoice E c'' m p a e md v r sg ?s'
         = Inl (if \<not> block_timestamp c'' \<le> ucast e then Expired
                else if p \<noteq> 0 \<and> msg_sender c'' \<noteq> p then Wrong_payer
                else Invalid_signature)" for c''
    using bad by (simp add: createAndPayInvoice_def Let_def)
  have same: "returned (createAndPayInvoice E c m p a e md v r sg ?s') = Inl Invalid_signature"
    using first by (auto simp: any [of c] returned_def)
  have other: "returned (createAndPayInvoice E c' m p a e md v r sg ?s')
         = Inl (if \<not> block_timestamp c' \<le> ucast e then Expired
                else if p \<noteq> 0 \<and> msg_sender c' \<noteq> p then Wrong_payer
                else Invalid_signature)"
    by (simp add: any [of c'] returned_def)
  have unchanged: "step E (c', CreateAndPayInvoice m p a e md v r sg) ?s' = ?s'"
    by (rule step_reverted) (simp add: any [of c'])
  show "unat (nonces ?s1 m) = unat (nonces s m) + 1
     \<and> returned (createAndPayInvoice E c m p a e md v r sg ?s') = Inl Invalid_signature
     \<and> returned (createAndPayInvoice E c' m p a e md v r sg ?s')
         = Inl (if \<not> block_timestamp c' \<le> ucast e then Expired
                else if p \<noteq> 0 \<and> msg_sender c' \<noteq> p then Wrong_payer
                else Invalid_signature)
     \<and> step E (c', CreateAndPayInvoice m p a e md v r sg) ?s' = ?s'"
    by (intro conjI) (fact u same other unchanged)+
qed

text \<open>
  In the second toy machine: 9 redeems merchant 7's authorization over nonce 0 at time
  10; then 9 pays invoice 0 and 8 redeems the merchant's next authorization, over nonce
  1, which brings the nonce to 2. After that the first call reverts with "Invalid
  signature", and a replay by 8 at time 60 with "Expired".
\<close>

theorem replay_is_rejected_witness:
  "returned (createAndPayInvoice demo_evm2 (demo_ctx 9 10 True) 7 0 100 50 [] 27 0 7
      demo_registry) = Inr ()
   \<and> unat (nonces (step demo_evm2 (demo_ctx 9 10 True, CreateAndPayInvoice 7 0 100 50 [] 27 0 7)
        demo_registry) 7) = 1
   \<and> unat (nonces (run demo_evm2
           [(demo_ctx 9 10 True, Pay 0),
            (demo_ctx 8 20 True, CreateAndPayInvoice 7 0 200 50 [] 27 1 7)]
           (step demo_evm2 (demo_ctx 9 10 True, CreateAndPayInvoice 7 0 100 50 [] 27 0 7)
              demo_registry)) 7) = 2
   \<and> returned (createAndPayInvoice demo_evm2 (demo_ctx 9 10 True) 7 0 100 50 [] 27 0 7
        (run demo_evm2
           [(demo_ctx 9 10 True, Pay 0),
            (demo_ctx 8 20 True, CreateAndPayInvoice 7 0 200 50 [] 27 1 7)]
           (step demo_evm2 (demo_ctx 9 10 True, CreateAndPayInvoice 7 0 100 50 [] 27 0 7)
              demo_registry))) = Inl Invalid_signature
   \<and> returned (createAndPayInvoice demo_evm2 (demo_ctx 8 60 True) 7 0 100 50 [] 27 0 7
        (run demo_evm2
           [(demo_ctx 9 10 True, Pay 0),
            (demo_ctx 8 20 True, CreateAndPayInvoice 7 0 200 50 [] 27 1 7)]
           (step demo_evm2 (demo_ctx 9 10 True, CreateAndPayInvoice 7 0 100 50 [] 27 0 7)
              demo_registry))) = Inl Expired"
  using demo2_gasless_ok demo2_later_nonces demo2_run_nonce
    replay_is_rejected [of demo_evm2 "demo_ctx 9 10 True" 7 0 100 50 "[]" 27 0 7 demo_registry
      "[(demo_ctx 9 10 True, Pay 0),
        (demo_ctx 8 20 True, CreateAndPayInvoice 7 0 200 50 [] 27 1 7)]"
      "demo_ctx 8 60 True"]
  by (simp add: demo_registry_simps demo_ctx_simps)

end
